theory Spec2Isabelle
  imports Main "HOL-Library.Word" "HOL-Library.AList"
begin

section \<open>Library behaviour outside the repository\<close>

text \<open>
  The client is Go. A \<^verbatim>\<open>float32\<close> or \<^verbatim>\<open>float64\<close> is carried by its bit pattern: the
  client never computes with one, it only stores, forwards and prints them. A
  \<^verbatim>\<open>time.Time\<close> is carried by what \<^verbatim>\<open>Unix()\<close> and \<^verbatim>\<open>Nanosecond()\<close> read from it. Go's
  \<^verbatim>\<open>int\<close> and \<^verbatim>\<open>uint\<close> are taken at their 64-bit width.
\<close>

datatype float32 = Float32 "32 word"
datatype float64 = Float64 "64 word"
datatype time = Time (Unix: "64 word") (Nanosecond: "32 word")

text \<open>
  What the code reads from libraries whose sources are not part of the repository and
  that have no short closed form: the \<^verbatim>\<open>%v\<close> text of a float (\<^verbatim>\<open>fmt\<close>), and the text of an
  error built by \<^verbatim>\<open>grpc.Errorf(code, format)\<close>. Every function below that depends on one of
  them takes this record as its first argument.
\<close>

record lib =
  fmtFloat32 :: "float32 \<Rightarrow> string"
  fmtFloat64 :: "float64 \<Rightarrow> string"
  grpcErrorText :: "32 word \<Rightarrow> string \<Rightarrow> string"

text \<open>Decimal text of integers: what \<^verbatim>\<open>%v\<close> and \<^verbatim>\<open>%d\<close> print for every integer type.\<close>

definition digit :: "nat \<Rightarrow> char" where
  "digit d = ''0123456789'' ! d"

fun FormatUint :: "nat \<Rightarrow> string" where
  "FormatUint n = (if n < 10 then [digit n] else FormatUint (n div 10) @ [digit (n mod 10)])"

declare FormatUint.simps [simp del]

definition FormatInt :: "int \<Rightarrow> string" where
  "FormatInt i = (if i < 0 then CHR ''-'' # FormatUint (nat (- i)) else FormatUint (nat i))"

definition FormatBool :: "bool \<Rightarrow> string" where
  "FormatBool b = (if b then ''true'' else ''false'')"

section \<open>Errors and results\<close>

text \<open>
  The error values the package creates or passes on. \<open>Errorf m\<close> is the value of
  \<^verbatim>\<open>fmt.Errorf\<close> whose message is \<open>m\<close>; \<open>GrpcErrorf c f\<close> is \<^verbatim>\<open>grpc.Errorf(c, f)\<close>, which is also
  the form of the errors the transport returns; \<open>MultiError\<close> is the positional
  list, \<open>None\<close> standing for a nil entry.
\<close>

datatype error =
    ErrNoSuchRecord
  | Errorf string
  | GrpcErrorf "32 word" string
  | MultiError "error option list"

text \<open>
  A Go function returning \<^verbatim>\<open>(T, error)\<close> either returns a value with a nil error, returns
  an error (its value is then nil and never read), or panics.
\<close>

datatype 'a res = Ok 'a | Err error | Panic

fun bind :: "'a res \<Rightarrow> ('a \<Rightarrow> 'b res) \<Rightarrow> 'b res" where
  "bind (Ok x) f = f x"
| "bind (Err e) f = Err e"
| "bind Panic f = Panic"

text \<open>
  The loop of the form \<^verbatim>\<open>for _, x := range xs { y, err := f(x); if err != nil { return
  nil, err }; out = append(out, y) }\<close>, which the package uses for every list it converts.
\<close>

fun each :: "('a \<Rightarrow> 'b res) \<Rightarrow> 'a list \<Rightarrow> 'b list res" where
  "each f [] = Ok []"
| "each f (x # xs) = bind (f x) (\<lambda>y. bind (each f xs) (\<lambda>ys. Ok (y # ys)))"

subsection \<open>MultiError.Error\<close>

text \<open>
  The loop of \<^verbatim>\<open>MultiError.Error\<close>: \<open>n\<close> counts the non-nil entries and \<open>msg\<close> keeps the
  message of the first. The entries are interface values, so the loop is given their
  \<^verbatim>\<open>Error()\<close> method as \<open>msgOf\<close>.
\<close>

fun MultiError_count :: "('e \<Rightarrow> string) \<Rightarrow> 'e option list \<Rightarrow> nat \<Rightarrow> string \<Rightarrow> nat \<times> string" where
  "MultiError_count msgOf [] n msg = (n, msg)"
| "MultiError_count msgOf (None # es) n msg = MultiError_count msgOf es n msg"
| "MultiError_count msgOf (Some e # es) n msg =
     MultiError_count msgOf es (n + 1) (if n = 0 then msgOf e else msg)"

definition MultiError_Error :: "('e \<Rightarrow> string) \<Rightarrow> 'e option list \<Rightarrow> string" where
  "MultiError_Error msgOf me =
     (case MultiError_count msgOf me 0 [] of (n, msg) \<Rightarrow>
        if n = 0 then ''(0 errors)''
        else if n = 1 then msg
        else if n = 2 then msg @ '' (and 1 other error)''
        else msg @ '' (and '' @ FormatInt (int n) @ '' other errors)'')"

lemma MultiError_count_cong [fundef_cong]:
  "me = me' \<Longrightarrow> n = n' \<Longrightarrow> msg = msg' \<Longrightarrow>
   (\<And>e. Some e \<in> set me' \<Longrightarrow> f e = g e) \<Longrightarrow>
   MultiError_count f me n msg = MultiError_count g me' n' msg'"
  by (induction f me n msg arbitrary: me' n' msg' rule: MultiError_count.induct) auto

lemma MultiError_Error_cong [fundef_cong]:
  "me = me' \<Longrightarrow> (\<And>e. Some e \<in> set me' \<Longrightarrow> f e = g e) \<Longrightarrow>
   MultiError_Error f me = MultiError_Error g me'"
  unfolding MultiError_Error_def by (simp cong: MultiError_count_cong)

text \<open>The \<^verbatim>\<open>Error()\<close> method of each error value.\<close>

fun Error :: "lib \<Rightarrow> error \<Rightarrow> string" where
  "Error L ErrNoSuchRecord = ''sajari: no such record''"
| "Error L (Errorf m) = m"
| "Error L (GrpcErrorf c f) = grpcErrorText L c f"
| "Error L (MultiError me) = MultiError_Error (Error L) me"

section \<open>Values, records and keys (record.go)\<close>

text \<open>
  A value of type \<^verbatim>\<open>interface{}\<close>, by dynamic type: the types the package's type switches
  name, nil, and \<open>VOther T\<close> for a value of any other dynamic type, \<open>T\<close> being what
  \<^verbatim>\<open>%T\<close> prints for it.
\<close>

datatype iface =
    VInt "64 word" | VUint "64 word" | VInt64 "64 word" | VUint64 "64 word"
  | VInt32 "32 word" | VUint32 "32 word" | VInt16 "16 word" | VUint16 "16 word"
  | VInt8 "8 word" | VUint8 "8 word" | VFloat32 float32 | VFloat64 float64
  | VString string | VBool bool
  | VTime time
  | VStrings "string list" | VInts "64 word list" | VInt64s "64 word list"
  | VNil
  | VOther string

fun typeName :: "iface \<Rightarrow> string" where
  "typeName (VInt _) = ''int''"
| "typeName (VUint _) = ''uint''"
| "typeName (VInt64 _) = ''int64''"
| "typeName (VUint64 _) = ''uint64''"
| "typeName (VInt32 _) = ''int32''"
| "typeName (VUint32 _) = ''uint32''"
| "typeName (VInt16 _) = ''int16''"
| "typeName (VUint16 _) = ''uint16''"
| "typeName (VInt8 _) = ''int8''"
| "typeName (VUint8 _) = ''uint8''"
| "typeName (VFloat32 _) = ''float32''"
| "typeName (VFloat64 _) = ''float64''"
| "typeName (VString _) = ''string''"
| "typeName (VBool _) = ''bool''"
| "typeName (VTime _) = ''time.Time''"
| "typeName (VStrings _) = ''[]string''"
| "typeName (VInts _) = ''[]int''"
| "typeName (VInt64s _) = ''[]int64''"
| "typeName VNil = ''<nil>''"
| "typeName (VOther T) = T"

text \<open>
  The first case of both type switches, \<^verbatim>\<open>case int, uint, int64, uint64, int32, uint32,
  int16, uint16, int8, uint8, float32, float64, string, bool\<close>: \<open>Some\<close> of
  \<^verbatim>\<open>fmt.Sprintf("%v", x)\<close> when \<open>x\<close> has one of these types, \<open>None\<close> when the case does not
  match.
\<close>

fun scalarText :: "lib \<Rightarrow> iface \<Rightarrow> string option" where
  "scalarText L (VInt x) = Some (FormatInt (sint x))"
| "scalarText L (VUint x) = Some (FormatUint (unat x))"
| "scalarText L (VInt64 x) = Some (FormatInt (sint x))"
| "scalarText L (VUint64 x) = Some (FormatUint (unat x))"
| "scalarText L (VInt32 x) = Some (FormatInt (sint x))"
| "scalarText L (VUint32 x) = Some (FormatUint (unat x))"
| "scalarText L (VInt16 x) = Some (FormatInt (sint x))"
| "scalarText L (VUint16 x) = Some (FormatUint (unat x))"
| "scalarText L (VInt8 x) = Some (FormatInt (sint x))"
| "scalarText L (VUint8 x) = Some (FormatUint (unat x))"
| "scalarText L (VFloat32 x) = Some (fmtFloat32 L x)"
| "scalarText L (VFloat64 x) = Some (fmtFloat64 L x)"
| "scalarText L (VString s) = Some s"
| "scalarText L (VBool b) = Some (FormatBool b)"
| "scalarText L _ = None"

text \<open>The wire value \<^verbatim>\<open>enginepb.Value\<close>: a oneof, which may be unset.\<close>

datatype pbValue = Value_Single string | Value_Repeated "string list" | Value_unset

definition BodyField :: string where
  "BodyField = ''_body''"

definition IDField :: string where
  "IDField = ''_id''"

text \<open>
  \<^verbatim>\<open>Record\<close> is \<^verbatim>\<open>map[string]interface{}\<close>: an association list, whose order stands for the
  order in which a \<^verbatim>\<open>range\<close> over the map happens to visit it. \<^verbatim>\<open>NewRecord\<close> copies
  \<open>values\<close> into a fresh map and then stores the body.
\<close>

type_synonym Record = "(string \<times> iface) list"

definition NewRecord :: "string \<Rightarrow> (string \<times> iface) list \<Rightarrow> Record" where
  "NewRecord body values = AList.update BodyField (VString body) values"

text \<open>
  \<^verbatim>\<open>valueFromProto\<close>. Its last line formats, with \<^verbatim>\<open>%T\<close>, the parameter (the switch variable
  of the same name is out of scope there): a pointer to the wire value type, whose
  package \<^verbatim>\<open>sajari/engine\<close> is imported as \<^verbatim>\<open>enginepb\<close>.
\<close>

definition pbValue_typeName :: string where
  "pbValue_typeName = ''*engine.Value''"

fun valueFromProto :: "pbValue \<Rightarrow> iface res" where
  "valueFromProto (Value_Single s) = Ok (VString s)"
| "valueFromProto (Value_Repeated vs) = Ok (VStrings vs)"
| "valueFromProto Value_unset = Err (Errorf (''unexpected type: '' @ pbValue_typeName))"

definition pbSingleValue :: "lib \<Rightarrow> iface \<Rightarrow> pbValue res" where
  "pbSingleValue L x =
     (case scalarText L x of
        Some s \<Rightarrow> Ok (Value_Single s)
      | None \<Rightarrow> Err (Errorf (''expected single value, got '' @ typeName x)))"

definition pbValueFromInterface :: "lib \<Rightarrow> iface \<Rightarrow> pbValue res" where
  "pbValueFromInterface L x =
     (case scalarText L x of
        Some s \<Rightarrow> Ok (Value_Single s)
      | None \<Rightarrow>
          (case x of
             VTime t \<Rightarrow> Ok (Value_Single (FormatInt (sint (Unix t))))
           | VStrings vs \<Rightarrow> Ok (Value_Repeated vs)
           | VInts xs \<Rightarrow> Ok (Value_Repeated (map (\<lambda>v. FormatInt (sint v)) xs))
           | VInt64s xs \<Rightarrow> Ok (Value_Repeated (map (\<lambda>v. FormatInt (sint v)) xs))
           | _ \<Rightarrow> Err (Errorf (''unsupported value: '' @ typeName x))))"

text \<open>\<^verbatim>\<open>protoValues.proto\<close>, \<^verbatim>\<open>Record.proto\<close> and \<^verbatim>\<open>records.proto\<close>.\<close>

type_synonym pbRecord = "(string \<times> pbValue) list"

definition protoValues_proto :: "lib \<Rightarrow> (string \<times> iface) list \<Rightarrow> (string \<times> pbValue) list res" where
  "protoValues_proto L p = each (\<lambda>(k, v). bind (pbValueFromInterface L v) (\<lambda>vv. Ok (k, vv))) p"

definition Record_proto :: "lib \<Rightarrow> Record \<Rightarrow> pbRecord res" where
  "Record_proto L r = bind (protoValues_proto L r) (\<lambda>values. Ok values)"

definition records_proto :: "lib \<Rightarrow> Record list \<Rightarrow> pbRecord list res" where
  "records_proto L rs = each (Record_proto L) rs"

text \<open>
  \<^verbatim>\<open>*Key\<close>: \<open>None\<close> is the nil pointer. On the wire a key's \<^verbatim>\<open>Value\<close> is a message
  field, nil when absent.
\<close>

datatype Key = NewKey (key_field: string) (key_value: iface)

datatype pbKey = PbKey (Field: string) (Value: "pbValue option")

definition Key_proto :: "lib \<Rightarrow> Key option \<Rightarrow> pbKey res" where
  "Key_proto L k =
     (case k of
        None \<Rightarrow> Err (Errorf ''empty key'')
      | Some k' \<Rightarrow>
          (case pbSingleValue L (key_value k') of
             Err e \<Rightarrow> Err (Errorf (''error marshalling key value: '' @ Error L e))
           | Panic \<Rightarrow> Panic
           | Ok vv \<Rightarrow> Ok (PbKey (key_field k') (Some vv))))"

definition keys_proto :: "lib \<Rightarrow> Key option list \<Rightarrow> pbKey list res" where
  "keys_proto L ks = each (Key_proto L) ks"

text \<open>
  \<^verbatim>\<open>keyFromProto\<close>: a key with neither field nor value decodes to the nil key. With a
  field but no value, \<^verbatim>\<open>valueFromProto\<close> is handed a nil pointer and its read of
  \<^verbatim>\<open>v.Value\<close> panics.
\<close>

definition keyFromProto :: "pbKey \<Rightarrow> Key option res" where
  "keyFromProto k =
     (if Field k = [] \<and> Value k = None then Ok None
      else case Value k of
             None \<Rightarrow> Panic
           | Some v \<Rightarrow> bind (valueFromProto v) (\<lambda>x. Ok (Some (NewKey (Field k) x))))"

definition pbKeys_keys :: "pbKey list \<Rightarrow> Key option list res" where
  "pbKeys_keys pbks = each keyFromProto pbks"

definition recordFromProto :: "pbRecord \<Rightarrow> Record res" where
  "recordFromProto pbr = each (\<lambda>(k, v). bind (valueFromProto v) (\<lambda>vv. Ok (k, vv))) pbr"

definition pbRecords_records :: "pbRecord list \<Rightarrow> Record list res" where
  "pbRecords_records pbrs = each recordFromProto pbrs"

text \<open>Encoding a value and decoding what was encoded.\<close>

definition roundtrip :: "lib \<Rightarrow> iface \<Rightarrow> iface res" where
  "roundtrip L x = bind (pbValueFromInterface L x) valueFromProto"

section \<open>Filters\<close>

text \<open>
  \<^verbatim>\<open>strings.TrimRight\<close> removes the longest suffix made of bytes of the cut set (the cut
  set used is ASCII, so bytes and code points agree). \<^verbatim>\<open>strings.TrimSpace\<close> removes white
  space at both ends; among ASCII bytes these are tab, line feed, vertical tab, form
  feed, carriage return and space. It is only applied to a suffix cut off by
  \<^verbatim>\<open>TrimRight\<close>, which holds bytes of the cut set only (lemma \<open>TrimRight_suffix\<close> below), so
  Unicode white space beyond ASCII cannot reach it.
\<close>

definition TrimRight :: "string \<Rightarrow> string \<Rightarrow> string" where
  "TrimRight s cutset = rev (dropWhile (\<lambda>c. c \<in> set cutset) (rev s))"



text \<open>
  The \<^verbatim>\<open>Filter\<close> interface with its three implementations, and the nil interface value.
  \<^verbatim>\<open>combFilterOp\<close> and \<^verbatim>\<open>GeoFilterRegion\<close> are integer types, so a value outside the
  declared constants can be stored in them.
\<close>

datatype Filter =
    NilFilter
  | fieldFilter (ff_op: string) (ff_field: string) (ff_value: iface)
  | combFilter (cf_op: int) (cf_filters: "Filter list")
  | geoFilter (fieldLat: string) (fieldLng: string) (lat: float64) (lng: float64)
      (radius: float64) (region: int)


definition combFilterOpAll :: int where "combFilterOpAll = 0"
definition combFilterOpAny :: int where "combFilterOpAny = 1"
definition combFilterOpOne :: int where "combFilterOpOne = 2"
definition combFilterOpNone :: int where "combFilterOpNone = 3"






definition GeoFilterInside :: int where "GeoFilterInside = 0"
definition GeoFilterOutside :: int where "GeoFilterOutside = 1"


text \<open>The wire message \<^verbatim>\<open>pb.Filter\<close> and its enumerations.\<close>

datatype Filter_Field_Operator =
    Field_EQUAL_TO | Field_NOT_EQUAL_TO | Field_GREATER_THAN | Field_GREATER_THAN_OR_EQUAL_TO
  | Field_LESS_THAN | Field_LESS_THAN_OR_EQUAL_TO | Field_CONTAINS | Field_DOES_NOT_CONTAIN
  | Field_HAS_PREFIX | Field_HAS_SUFFIX

datatype Filter_Combinator_Operator =
  Combinator_ALL | Combinator_ANY | Combinator_ONE | Combinator_NONE

datatype Filter_Geo_Region = Geo_INSIDE | Geo_OUTSIDE

datatype pbFilter =
    Filter_Field string Filter_Field_Operator pbValue
  | Filter_Combinator Filter_Combinator_Operator "pbFilter list"
  | Filter_Geo string string float64 float64 float64 Filter_Geo_Region

text \<open>The \<^verbatim>\<open>switch\<close> of each \<^verbatim>\<open>proto\<close> method; \<open>None\<close> is its \<^verbatim>\<open>default\<close> branch.\<close>

definition fieldOperator :: "string \<Rightarrow> Filter_Field_Operator option" where
  "fieldOperator op =
     (if op = ''='' then Some Field_EQUAL_TO
      else if op = ''!='' then Some Field_NOT_EQUAL_TO
      else if op = ''>'' then Some Field_GREATER_THAN
      else if op = ''>='' then Some Field_GREATER_THAN_OR_EQUAL_TO
      else if op = ''<'' then Some Field_LESS_THAN
      else if op = ''<='' then Some Field_LESS_THAN_OR_EQUAL_TO
      else if op = ''~'' then Some Field_CONTAINS
      else if op = ''!~'' then Some Field_DOES_NOT_CONTAIN
      else if op = ''^'' then Some Field_HAS_PREFIX
      else if op = ''$'' then Some Field_HAS_SUFFIX
      else None)"

definition combinatorOperator :: "int \<Rightarrow> Filter_Combinator_Operator option" where
  "combinatorOperator op =
     (if op = combFilterOpAll then Some Combinator_ALL
      else if op = combFilterOpAny then Some Combinator_ANY
      else if op = combFilterOpOne then Some Combinator_ONE
      else if op = combFilterOpNone then Some Combinator_NONE
      else None)"

definition geoRegion :: "int \<Rightarrow> Filter_Geo_Region option" where
  "geoRegion reg =
     (if reg = GeoFilterInside then Some Geo_INSIDE
      else if reg = GeoFilterOutside then Some Geo_OUTSIDE
      else None)"

lemma each_cong [fundef_cong]:
  "xs = ys \<Longrightarrow> (\<And>x. x \<in> set ys \<Longrightarrow> f x = g x) \<Longrightarrow> each f xs = each g ys"
  by (induction ys arbitrary: xs) auto

text \<open>
  The three \<^verbatim>\<open>proto\<close> methods, dispatched on the implementation. Calling the method on
  the nil interface value panics. A combinator checks its own operator before it
  converts any of its filters.
\<close>

fun filter_proto :: "lib \<Rightarrow> Filter \<Rightarrow> pbFilter res" where
  "filter_proto L NilFilter = Panic"
| "filter_proto L (fieldFilter op fld v) =
     (case fieldOperator op of
        None \<Rightarrow> Err (Errorf (''invalid field filter operator: '' @ op))
      | Some operator \<Rightarrow>
          (case pbValueFromInterface L v of
             Err e \<Rightarrow> Err (Errorf (''error marshalling value: '' @ Error L e))
           | Panic \<Rightarrow> Panic
           | Ok pv \<Rightarrow> Ok (Filter_Field fld operator pv)))"
| "filter_proto L (combFilter op filters) =
     (case combinatorOperator op of
        None \<Rightarrow> Err (Errorf (''invalid combinator operator: '' @ FormatInt op))
      | Some operator \<Rightarrow>
          bind (each (filter_proto L) filters) (\<lambda>pfs. Ok (Filter_Combinator operator pfs)))"
| "filter_proto L (geoFilter fLat fLng la ln r reg) =
     (case geoRegion reg of
        None \<Rightarrow> Err (Errorf (''geo filter: invalid region '' @ [CHR 0x27] @ FormatInt reg @ [CHR 0x27]))
      | Some pbRegion \<Rightarrow> Ok (Filter_Geo fLat fLng la ln r pbRegion))"




section \<open>Boosts, aggregates, sorts and tracking\<close>

text \<open>
  Each interface of the query model has its implementations and the nil interface value
  as constructors; calling \<^verbatim>\<open>proto\<close> on nil panics.
\<close>

datatype IntervalPoint = IntervalPoint (ip_Point: float64) (ip_Value: float64)

datatype FieldBoost =
    NilFieldBoost
  | filterFieldBoost Filter float64
  | intervalFieldBoost string "IntervalPoint list"
  | elementFieldBoost string "string list"
  | textFieldBoost string string

datatype FieldBoost_Interval_Point = FieldBoost_Interval_Point float64 float64

datatype pbFieldBoost =
    FieldBoost_Filter pbFilter float64
  | FieldBoost_Interval string "FieldBoost_Interval_Point list"
  | FieldBoost_Element string "string list"
  | FieldBoost_Text string string


definition IntervalFieldBoost :: "string \<Rightarrow> IntervalPoint list \<Rightarrow> FieldBoost" where
  "IntervalFieldBoost fld values = intervalFieldBoost fld values"

definition ElementFieldBoost :: "string \<Rightarrow> string list \<Rightarrow> FieldBoost" where
  "ElementFieldBoost fld elts = elementFieldBoost fld elts"

definition TextFieldBoost :: "string \<Rightarrow> string \<Rightarrow> FieldBoost" where
  "TextFieldBoost fld txt = textFieldBoost fld txt"

definition pointValues_proto :: "IntervalPoint list \<Rightarrow> FieldBoost_Interval_Point list" where
  "pointValues_proto pvs = map (\<lambda>pv. FieldBoost_Interval_Point (ip_Point pv) (ip_Value pv)) pvs"

fun FieldBoost_proto :: "lib \<Rightarrow> FieldBoost \<Rightarrow> pbFieldBoost res" where
  "FieldBoost_proto L NilFieldBoost = Panic"
| "FieldBoost_proto L (filterFieldBoost f v) =
     bind (filter_proto L f) (\<lambda>pf. Ok (FieldBoost_Filter pf v))"
| "FieldBoost_proto L (intervalFieldBoost fld values) =
     Ok (FieldBoost_Interval fld (pointValues_proto values))"
| "FieldBoost_proto L (elementFieldBoost fld elts) = Ok (FieldBoost_Element fld elts)"
| "FieldBoost_proto L (textFieldBoost fld txt) = Ok (FieldBoost_Text fld txt)"

definition fieldBoosts_proto :: "lib \<Rightarrow> FieldBoost list \<Rightarrow> pbFieldBoost list res" where
  "fieldBoosts_proto L bs = each (FieldBoost_proto L) bs"

datatype FeatureFieldBoost = NewFeatureFieldBoost (ffb_boost: FieldBoost) (ffb_value: float64)

datatype pbFeatureFieldBoost = FeatureQuery_FieldBoost pbFieldBoost float64

definition FeatureFieldBoost_proto :: "lib \<Rightarrow> FeatureFieldBoost \<Rightarrow> pbFeatureFieldBoost res" where
  "FeatureFieldBoost_proto L ab =
     bind (FieldBoost_proto L (ffb_boost ab)) (\<lambda>pbb. Ok (FeatureQuery_FieldBoost pbb (ffb_value ab)))"

definition featureFieldBoosts_proto :: "lib \<Rightarrow> FeatureFieldBoost list \<Rightarrow> pbFeatureFieldBoost list res" where
  "featureFieldBoosts_proto L bs = each (FeatureFieldBoost_proto L) bs"

text \<open>
  Instance boosts. \<^verbatim>\<open>uint32(sib.minCount)\<close> keeps the low 32 bits of the \<^verbatim>\<open>int\<close>.
\<close>

datatype InstanceBoost =
    NilInstanceBoost
  | fieldInstanceBoost string float64
  | scoreInstanceBoost "64 word" float64

datatype pbInstanceBoost =
    InstanceBoost_Field string float64
  | InstanceBoost_Score "32 word" float64

definition FieldInstanceBoost :: "string \<Rightarrow> float64 \<Rightarrow> InstanceBoost" where
  "FieldInstanceBoost fld v = fieldInstanceBoost fld v"

definition ScoreInstanceBoost :: "64 word \<Rightarrow> float64 \<Rightarrow> InstanceBoost" where
  "ScoreInstanceBoost minCount threshold = scoreInstanceBoost minCount threshold"

fun InstanceBoost_proto :: "InstanceBoost \<Rightarrow> pbInstanceBoost res" where
  "InstanceBoost_proto NilInstanceBoost = Panic"
| "InstanceBoost_proto (fieldInstanceBoost fld v) = Ok (InstanceBoost_Field fld v)"
| "InstanceBoost_proto (scoreInstanceBoost minCount threshold) =
     Ok (InstanceBoost_Score (ucast minCount) threshold)"

definition instanceBoosts_proto :: "InstanceBoost list \<Rightarrow> pbInstanceBoost list res" where
  "instanceBoosts_proto bs = each InstanceBoost_proto bs"

text \<open>Aggregates. A request holds them in a map from names, an association list here.\<close>

datatype Bucket = Bucket (bucket_Name: string) (bucket_Filter: Filter)

datatype Aggregate =
    NilAggregate
  | countAggregate string
  | bucketAggregate "Bucket list"
  | maxAggregate string
  | minAggregate string
  | avgAggregate string
  | sumAggregate string

datatype Aggregate_Metric_Type = Metric_MAX | Metric_MIN | Metric_AVG | Metric_SUM

datatype Aggregate_Bucket_Bucket = Aggregate_Bucket_Bucket string pbFilter

datatype pbAggregate =
    Aggregate_Count string
  | Aggregate_Bucket "Aggregate_Bucket_Bucket list"
  | Aggregate_Metric string Aggregate_Metric_Type

definition CountAggregate :: "string \<Rightarrow> Aggregate" where
  "CountAggregate fld = countAggregate fld"


definition MaxAggregate :: "string \<Rightarrow> Aggregate" where
  "MaxAggregate fld = maxAggregate fld"

definition MinAggregate :: "string \<Rightarrow> Aggregate" where
  "MinAggregate fld = minAggregate fld"

definition AvgAggregate :: "string \<Rightarrow> Aggregate" where
  "AvgAggregate fld = avgAggregate fld"

definition SumAggregate :: "string \<Rightarrow> Aggregate" where
  "SumAggregate fld = sumAggregate fld"

definition Bucket_proto :: "lib \<Rightarrow> Bucket \<Rightarrow> Aggregate_Bucket_Bucket res" where
  "Bucket_proto L b =
     bind (filter_proto L (bucket_Filter b)) (\<lambda>pf. Ok (Aggregate_Bucket_Bucket (bucket_Name b) pf))"

definition metricAggregateProto :: "string \<Rightarrow> Aggregate_Metric_Type \<Rightarrow> pbAggregate res" where
  "metricAggregateProto fld ty = Ok (Aggregate_Metric fld ty)"

fun Aggregate_proto :: "lib \<Rightarrow> Aggregate \<Rightarrow> pbAggregate res" where
  "Aggregate_proto L NilAggregate = Panic"
| "Aggregate_proto L (countAggregate fld) = Ok (Aggregate_Count fld)"
| "Aggregate_proto L (bucketAggregate buckets) =
     bind (each (Bucket_proto L) buckets) (\<lambda>pbuckets. Ok (Aggregate_Bucket pbuckets))"
| "Aggregate_proto L (maxAggregate m) = metricAggregateProto m Metric_MAX"
| "Aggregate_proto L (minAggregate m) = metricAggregateProto m Metric_MIN"
| "Aggregate_proto L (avgAggregate m) = metricAggregateProto m Metric_AVG"
| "Aggregate_proto L (sumAggregate m) = metricAggregateProto m Metric_SUM"

definition aggregates_proto :: "lib \<Rightarrow> (string \<times> Aggregate) list \<Rightarrow> (string \<times> pbAggregate) list res" where
  "aggregates_proto L as = each (\<lambda>(k, v). bind (Aggregate_proto L v) (\<lambda>a. Ok (k, a))) as"

text \<open>
  Sorts. \<^verbatim>\<open>order\<close> starts as the zero value of \<^verbatim>\<open>querypb.Sort_Order\<close>, the ascending order;
  a leading \<^verbatim>\<open>-\<close> is cut off the field and makes the order descending.
\<close>

datatype Sort = NilSort | SortByField string

datatype Sort_Order = Sort_ASC | Sort_DESC

datatype pbSort = Sort_Field string Sort_Order

fun Sort_proto :: "Sort \<Rightarrow> pbSort res" where
  "Sort_proto NilSort = Panic"
| "Sort_proto (SortByField s) =
     (if take 1 s = ''-'' then Ok (Sort_Field (drop 1 s) Sort_DESC) else Ok (Sort_Field s Sort_ASC))"

definition sorts_proto :: "Sort list \<Rightarrow> pbSort list res" where
  "sorts_proto ss = each Sort_proto ss"

text \<open>Tracking. \<^verbatim>\<open>TrackingType\<close> is a string type; \<^verbatim>\<open>int32(t.Sequence)\<close> keeps the low 32 bits.\<close>

definition TrackingNone :: string where "TrackingNone = []"
definition TrackingClick :: string where "TrackingClick = ''CLICK''"
definition TrackingPosNeg :: string where "TrackingPosNeg = ''POS_NEG''"

datatype Tracking_Type = Tracking_NONE | Tracking_CLICK | Tracking_POS_NEG

definition TrackingType_proto :: "string \<Rightarrow> Tracking_Type res" where
  "TrackingType_proto t =
     (if t = TrackingNone then Ok Tracking_NONE
      else if t = TrackingClick then Ok Tracking_CLICK
      else if t = TrackingPosNeg then Ok Tracking_POS_NEG
      else Err (Errorf (''unknown TrackingType: '' @ t)))"

datatype Tracking = Tracking (tr_Type: string) (tr_QueryID: string) (tr_Sequence: "64 word")
  (tr_Field: string) (tr_Data: "(string \<times> string) list")

datatype pbTracking = SearchRequest_Tracking Tracking_Type string "32 word" string
  "(string \<times> string) list"

definition Tracking_proto :: "Tracking \<Rightarrow> pbTracking res" where
  "Tracking_proto t =
     bind (TrackingType_proto (tr_Type t))
       (\<lambda>pbType. Ok (SearchRequest_Tracking pbType (tr_QueryID t) (ucast (tr_Sequence t))
                       (tr_Field t) (tr_Data t)))"

section \<open>Requests (search.go)\<close>

datatype Body = Body (body_Text: string) (body_Weight: float64)

datatype pbBody = PbBody string float64

definition Body_proto :: "Body \<Rightarrow> pbBody" where
  "Body_proto w = PbBody (body_Text w) (body_Weight w)"

datatype Term = Term (term_Value: string) (term_Field: string) (term_Pos: "16 word")
  (term_Neg: "16 word") (term_Weight: float64) (term_WOff: "16 word") (term_POff: "16 word")

datatype pbTerm = PbTerm string string "32 word" "32 word" float64 "32 word" "32 word"

definition Term_proto :: "Term \<Rightarrow> pbTerm" where
  "Term_proto t = PbTerm (term_Value t) (term_Field t) (ucast (term_Pos t)) (ucast (term_Neg t))
                    (term_Weight t) (ucast (term_WOff t)) (ucast (term_POff t))"

definition terms_proto :: "Term list \<Rightarrow> pbTerm list" where
  "terms_proto ts = map Term_proto ts"

text \<open>The \<^verbatim>\<open>float64\<close> constant \<^verbatim>\<open>1.0\<close>, by its IEEE 754 bit pattern.\<close>

definition float64_one :: float64 where
  "float64_one = Float64 0x3FF0000000000000"

text \<open>
  A nil slice and an empty slice are both the empty list: the checks
  \<^verbatim>\<open>if q.FieldBoosts != nil\<close>, \<^verbatim>\<open>if len(q.Terms) > 0\<close> and the like only decide between a
  nil and an empty slice in the message, which are the same list here.
\<close>

datatype IndexQuery = IndexQuery (iq_Text: string) (iq_Body: "Body list") (iq_Terms: "Term list")
  (iq_FieldBoosts: "FieldBoost list") (iq_InstanceBoosts: "InstanceBoost list")

datatype pbIndexQuery = SearchRequest_IndexQuery "pbBody list" "pbTerm list" "pbFieldBoost list"
  "pbInstanceBoost list"

definition IndexQuery_proto :: "lib \<Rightarrow> IndexQuery \<Rightarrow> pbIndexQuery res" where
  "IndexQuery_proto L q =
     (let wb = (if iq_Text q \<noteq> [] then iq_Body q @ [Body (iq_Text q) float64_one] else iq_Body q)
      in bind (fieldBoosts_proto L (iq_FieldBoosts q)) (\<lambda>metaBoosts.
         bind (instanceBoosts_proto (iq_InstanceBoosts q)) (\<lambda>indexBoosts.
         Ok (SearchRequest_IndexQuery (map Body_proto wb) (terms_proto (iq_Terms q))
               metaBoosts indexBoosts))))"

datatype FeatureQuery = FeatureQuery (fq_FieldBoosts: "FeatureFieldBoost list")

datatype pbFeatureQuery = SearchRequest_FeatureQuery "pbFeatureFieldBoost list"

definition FeatureQuery_proto :: "lib \<Rightarrow> FeatureQuery \<Rightarrow> pbFeatureQuery res" where
  "FeatureQuery_proto L q =
     bind (featureFieldBoosts_proto L (fq_FieldBoosts q)) (\<lambda>afbs. Ok (SearchRequest_FeatureQuery afbs))"

text \<open>\<^verbatim>\<open>Transform\<close> is a string type.\<close>

type_synonym Transform = string

definition SplitStopStemIndexedFieldsTranform :: Transform where
  "SplitStopStemIndexedFieldsTranform = ''split-stop-stem-indexed-fields''"

definition DefaultAddTransforms :: "Transform list" where
  "DefaultAddTransforms = [SplitStopStemIndexedFieldsTranform]"

datatype Request = Request (rq_Tracking: Tracking) (rq_Filter: Filter) (rq_IndexQuery: IndexQuery)
  (rq_FeatureQuery: FeatureQuery) (rq_Offset: "64 word") (rq_Limit: "64 word")
  (rq_Sort: "Sort list") (rq_Fields: "string list") (rq_Aggregates: "(string \<times> Aggregate) list")
  (rq_Transforms: "Transform list")

text \<open>The engine's \<^verbatim>\<open>querypb.SearchRequest\<close> and the API's \<^verbatim>\<open>pb.SearchRequest\<close> around it.\<close>

datatype engineSearchRequest = EngineSearchRequest
  (sr_Offset: "32 word") (sr_Limit: "32 word") (sr_Fields: "string list")
  (sr_IndexQuery: pbIndexQuery) (sr_FeatureQuery: pbFeatureQuery) (sr_Filter: "pbFilter option")
  (sr_Sort: "pbSort list") (sr_Aggregates: "(string \<times> pbAggregate) list")
  (sr_Transforms: "string list")

datatype pbSearchRequest = PbSearchRequest (psr_Tracking: pbTracking)
  (psr_SearchRequest: engineSearchRequest)

definition Request_proto :: "lib \<Rightarrow> Request \<Rightarrow> pbSearchRequest res" where
  "Request_proto L r =
     bind (IndexQuery_proto L (rq_IndexQuery r)) (\<lambda>iq.
     bind (FeatureQuery_proto L (rq_FeatureQuery r)) (\<lambda>fq.
     bind (if rq_Filter r \<noteq> NilFilter
           then bind (filter_proto L (rq_Filter r)) (\<lambda>pf. Ok (Some pf))
           else Ok None) (\<lambda>pfilter.
     bind (sorts_proto (rq_Sort r)) (\<lambda>sts.
     bind (aggregates_proto L (rq_Aggregates r)) (\<lambda>ags.
     bind (Tracking_proto (rq_Tracking r)) (\<lambda>tracking.
     Ok (PbSearchRequest tracking
           (EngineSearchRequest (ucast (rq_Offset r)) (ucast (rq_Limit r)) (rq_Fields r)
              iq fq pfilter sts ags (rq_Transforms r)))))))))"

section \<open>The remote service and the calls made to it\<close>

datatype Status = Status (Code: "32 word") (Message: string)

definition codes_OK :: "32 word" where "codes_OK = 0"
definition codes_NotFound :: "32 word" where "codes_NotFound = 5"

datatype AddRequest = AddRequest (add_Records: "pbRecord list") (add_Transforms: "string list")
datatype AddResponse = AddResponse (add_Keys: "pbKey list") (add_Status: "Status list")
datatype GetResponse = GetResponse (get_Records: "pbRecord list") (get_Status: "Status list")
datatype StatusResponse = StatusResponse (resp_Status: "Status list")
datatype AnalyseRequest = AnalyseRequest (an_SearchRequest: engineSearchRequest) (an_Keys: "pbKey list")
datatype AnalyseResponse = AnalyseResponse (an_Terms: "string list list") (an_Status: "Status list")
datatype KeyScores_Score = KeyScores_Score (score_Terms: "string list") (score_Count: "32 word")
  (score_Score: float32)
datatype KeyScores = KeyScores (ks_Key: pbKey) (ks_Scores: "KeyScores_Score list")

text \<open>
  The service behind the connection: for each remote procedure, the answer to a request,
  an error of the transport or a response. A remote call made by an operation is
  recorded in the list of calls the operation returns beside its result.
\<close>

record Client =
  store_Add :: "AddRequest \<Rightarrow> error + AddResponse"
  store_Get :: "pbKey list \<Rightarrow> error + GetResponse"
  store_Exists :: "pbKey list \<Rightarrow> error + StatusResponse"
  store_Delete :: "pbKey list \<Rightarrow> error + StatusResponse"
  query_Analyse :: "AnalyseRequest \<Rightarrow> error + AnalyseResponse"
  score_Increment :: "KeyScores list \<Rightarrow> error + StatusResponse"

datatype call =
    CallAdd AddRequest
  | CallGet "pbKey list"
  | CallExists "pbKey list"
  | CallDelete "pbKey list"
  | CallAnalyse AnalyseRequest
  | CallIncrement "KeyScores list"

text \<open>
  What an operation with the results \<^verbatim>\<open>(T, error)\<close> hands back: both results (a nil slice
  is the empty list, a nil error is \<open>None\<close>), or a panic. An operation that returns only
  an error has \<open>unit\<close> for \<^verbatim>\<open>T\<close>.
\<close>

datatype 'a ret = Return 'a "error option" | Panics

section \<open>Batch and single operations (record.go)\<close>

text \<open>
  \<^verbatim>\<open>multiErrorFromRecordStatusProto\<close>: its loop over the statuses, with the list \<^verbatim>\<open>out\<close>
  and the flag \<^verbatim>\<open>empty\<close> of the source (here \<open>noErrors\<close>) as accumulators, and the choice
  between nil and the MultiError after it.
\<close>

fun recordStatusLoop :: "Status list \<Rightarrow> error option list \<Rightarrow> bool \<Rightarrow> error option list \<times> bool" where
  "recordStatusLoop [] out noErrors = (out, noErrors)"
| "recordStatusLoop (s # ss) out noErrors =
     (if Code s = codes_OK then recordStatusLoop ss (out @ [None]) noErrors
      else if Code s = codes_NotFound then recordStatusLoop ss (out @ [Some ErrNoSuchRecord]) False
      else recordStatusLoop ss (out @ [Some (GrpcErrorf (Code s) (Message s))]) False)"

definition multiErrorFromRecordStatusProto :: "Status list \<Rightarrow> error option" where
  "multiErrorFromRecordStatusProto status =
     (case recordStatusLoop status [] True of
        (out, noErrors) \<Rightarrow> if noErrors then None else Some (MultiError out))"

text \<open>The entry the loop of \<^verbatim>\<open>multiErrorFromRecordStatusProto\<close> appends for one status.\<close>

definition statusError :: "Status \<Rightarrow> error option" where
  "statusError s =
     (if Code s = codes_OK then None
      else if Code s = codes_NotFound then Some ErrNoSuchRecord
      else Some (GrpcErrorf (Code s) (Message s)))"

definition AddMulti :: "lib \<Rightarrow> Client \<Rightarrow> Record list \<Rightarrow> Transform list \<Rightarrow> Key option list ret \<times> call list" where
  "AddMulti L c rs ts =
     (case records_proto L rs of
        Err e \<Rightarrow> (Return [] (Some e), [])
      | Panic \<Rightarrow> (Panics, [])
      | Ok pbrs \<Rightarrow>
          (let ts' = (if length ts = 0 then ts @ DefaultAddTransforms else ts);
               req = AddRequest pbrs ts'
           in case store_Add c req of
                Inl e \<Rightarrow> (Return [] (Some e), [CallAdd req])
              | Inr pbks \<Rightarrow>
                  (case pbKeys_keys (add_Keys pbks) of
                     Err e \<Rightarrow> (Return [] (Some e), [CallAdd req])
                   | Panic \<Rightarrow> (Panics, [CallAdd req])
                   | Ok keys \<Rightarrow>
                       (Return keys (multiErrorFromRecordStatusProto (add_Status pbks)),
                        [CallAdd req]))))"

definition Add :: "lib \<Rightarrow> Client \<Rightarrow> Record \<Rightarrow> Transform list \<Rightarrow> Key option ret \<times> call list" where
  "Add L c r ts =
     (case AddMulti L c [r] ts of
        (Panics, calls) \<Rightarrow> (Panics, calls)
      | (Return ks (Some err), calls) \<Rightarrow>
          (case err of
             MultiError me \<Rightarrow> (case me of [] \<Rightarrow> (Panics, calls) | e # _ \<Rightarrow> (Return None e, calls))
           | _ \<Rightarrow> (Return None (Some err), calls))
      | (Return ks None, calls) \<Rightarrow>
          (case ks of [] \<Rightarrow> (Panics, calls) | k # _ \<Rightarrow> (Return k None, calls)))"

definition GetMulti :: "lib \<Rightarrow> Client \<Rightarrow> Key option list \<Rightarrow> Record list ret \<times> call list" where
  "GetMulti L c k =
     (case keys_proto L k of
        Err e \<Rightarrow> (Return [] (Some e), [])
      | Panic \<Rightarrow> (Panics, [])
      | Ok pbks \<Rightarrow>
          (case store_Get c pbks of
             Inl e \<Rightarrow> (Return [] (Some e), [CallGet pbks])
           | Inr resp \<Rightarrow>
               (case pbRecords_records (get_Records resp) of
                  Err e \<Rightarrow> (Return [] (Some e), [CallGet pbks])
                | Panic \<Rightarrow> (Panics, [CallGet pbks])
                | Ok docs \<Rightarrow>
                    (Return docs (multiErrorFromRecordStatusProto (get_Status resp)),
                     [CallGet pbks]))))"

definition Get :: "lib \<Rightarrow> Client \<Rightarrow> Key option \<Rightarrow> Record ret \<times> call list" where
  "Get L c k =
     (case GetMulti L c [k] of
        (Panics, calls) \<Rightarrow> (Panics, calls)
      | (Return resp (Some err), calls) \<Rightarrow>
          (case err of
             MultiError me \<Rightarrow> (case me of [] \<Rightarrow> (Panics, calls) | e # _ \<Rightarrow> (Return [] e, calls))
           | _ \<Rightarrow> (Return [] (Some err), calls))
      | (Return resp None, calls) \<Rightarrow>
          (case resp of [] \<Rightarrow> (Panics, calls) | d # _ \<Rightarrow> (Return d None, calls)))"

fun existsLoop :: "Status list \<Rightarrow> bool list \<Rightarrow> error option list \<Rightarrow> bool
    \<Rightarrow> bool list \<times> error option list \<times> bool" where
  "existsLoop [] out errs noErrors = (out, errs, noErrors)"
| "existsLoop (s # ss) out errs noErrors =
     (if Code s = codes_OK then existsLoop ss (out @ [True]) (errs @ [None]) noErrors
      else if Code s = codes_NotFound then existsLoop ss (out @ [False]) (errs @ [None]) noErrors
      else existsLoop ss out (errs @ [Some (GrpcErrorf (Code s) (Message s))]) False)"

definition ExistsMulti :: "lib \<Rightarrow> Client \<Rightarrow> Key option list \<Rightarrow> bool list ret \<times> call list" where
  "ExistsMulti L c k =
     (case keys_proto L k of
        Err e \<Rightarrow> (Return [] (Some e), [])
      | Panic \<Rightarrow> (Panics, [])
      | Ok pbks \<Rightarrow>
          (case store_Exists c pbks of
             Inl e \<Rightarrow> (Return [] (Some e), [CallExists pbks])
           | Inr resp \<Rightarrow>
               (case existsLoop (resp_Status resp) [] [] True of
                  (out, errs, noErrors) \<Rightarrow>
                    if noErrors then (Return out None, [CallExists pbks])
                    else (Return [] (Some (MultiError errs)), [CallExists pbks]))))"

definition Exists :: "lib \<Rightarrow> Client \<Rightarrow> Key option \<Rightarrow> bool ret \<times> call list" where
  "Exists L c k =
     (case ExistsMulti L c [k] of
        (Panics, calls) \<Rightarrow> (Panics, calls)
      | (Return resp (Some err), calls) \<Rightarrow>
          (case err of
             MultiError me \<Rightarrow> (case me of [] \<Rightarrow> (Panics, calls) | e # _ \<Rightarrow> (Return False e, calls))
           | _ \<Rightarrow> (Return False (Some err), calls))
      | (Return resp None, calls) \<Rightarrow>
          (case resp of [] \<Rightarrow> (Panics, calls) | b # _ \<Rightarrow> (Return b None, calls)))"



section \<open>Analysis and learning\<close>

definition AnalyseMulti :: "lib \<Rightarrow> Client \<Rightarrow> Key option list \<Rightarrow> Request \<Rightarrow> string list list ret \<times> call list" where
  "AnalyseMulti L c ks r =
     (case Request_proto L r of
        Err e \<Rightarrow> (Return [] (Some e), [])
      | Panic \<Rightarrow> (Panics, [])
      | Ok pr \<Rightarrow>
          (case keys_proto L ks of
             Err e \<Rightarrow> (Return [] (Some e), [])
           | Panic \<Rightarrow> (Panics, [])
           | Ok pbks \<Rightarrow>
               (let req = AnalyseRequest (psr_SearchRequest pr) pbks
                in case query_Analyse c req of
                     Inl e \<Rightarrow> (Return [] (Some e), [CallAnalyse req])
                   | Inr resp \<Rightarrow>
                       (Return (an_Terms resp) (multiErrorFromRecordStatusProto (an_Status resp)),
                        [CallAnalyse req]))))"

text \<open>Indexing a slice: out of range it panics.\<close>

definition index :: "'a list \<Rightarrow> nat \<Rightarrow> 'a res" where
  "index xs i = (if i < length xs then Ok (xs ! i) else Panic)"

text \<open>
  The loop of \<^verbatim>\<open>LearnMulti\<close> over \<^verbatim>\<open>pbks\<close>, from position \<open>i\<close> on. \<^verbatim>\<open>int32(counts[i])\<close>
  keeps the low 32 bits.
\<close>

fun keysScoresLoop :: "nat \<Rightarrow> pbKey list \<Rightarrow> string list list \<Rightarrow> 64 word list \<Rightarrow> float32 list
    \<Rightarrow> KeyScores list res" where
  "keysScoresLoop i [] ars counts scores = Ok []"
| "keysScoresLoop i (k # pbks) ars counts scores =
     bind (index ars i) (\<lambda>terms.
     bind (index counts i) (\<lambda>count.
     bind (index scores i) (\<lambda>score.
     bind (keysScoresLoop (i + 1) pbks ars counts scores) (\<lambda>rest.
     Ok (KeyScores k [KeyScores_Score terms (ucast count) score] # rest)))))"

definition LearnMulti :: "lib \<Rightarrow> Client \<Rightarrow> Key option list \<Rightarrow> Request \<Rightarrow> 64 word list \<Rightarrow> float32 list
    \<Rightarrow> unit ret \<times> call list" where
  "LearnMulti L c ks r counts scores =
     (if length ks \<noteq> length counts \<or> length ks \<noteq> length scores
      then (Return () (Some (Errorf ''number of keys, counts and scores do not match'')), [])
      else case AnalyseMulti L c ks r of
             (Panics, calls) \<Rightarrow> (Panics, calls)
           | (Return ars (Some err), calls) \<Rightarrow> (Return () (Some err), calls)
           | (Return ars None, calls) \<Rightarrow>
               (case keys_proto L ks of
                  Err e \<Rightarrow> (Return () (Some e), calls)
                | Panic \<Rightarrow> (Panics, calls)
                | Ok pbks \<Rightarrow>
                    (case keysScoresLoop 0 pbks ars counts scores of
                       Err e \<Rightarrow> (Return () (Some e), calls)
                     | Panic \<Rightarrow> (Panics, calls)
                     | Ok keysScores \<Rightarrow>
                         (case score_Increment c keysScores of
                            Inl e \<Rightarrow> (Return () (Some e), calls @ [CallIncrement keysScores])
                          | Inr resp \<Rightarrow>
                              (Return () (multiErrorFromRecordStatusProto (resp_Status resp)),
                               calls @ [CallIncrement keysScores])))))"

section \<open>What can make a serialization fail\<close>









section \<open>Examples\<close>

text \<open>
  Concrete inputs on which the operations are evaluated below: a service that answers
  every call with the given keys, records, terms and statuses, keys, records and a request.
\<close>

definition exampleService :: "pbKey list \<Rightarrow> pbRecord list \<Rightarrow> string list list \<Rightarrow> Status list \<Rightarrow> Client" where
  "exampleService keys recs terms status =
     \<lparr> store_Add = (\<lambda>_. Inr (AddResponse keys status)),
       store_Get = (\<lambda>_. Inr (GetResponse recs status)),
       store_Exists = (\<lambda>_. Inr (StatusResponse status)),
       store_Delete = (\<lambda>_. Inr (StatusResponse status)),
       query_Analyse = (\<lambda>_. Inr (AnalyseResponse terms status)),
       score_Increment = (\<lambda>_. Inr (StatusResponse status)) \<rparr>"

definition exampleKeys :: "Key option list" where
  "exampleKeys = [Some (NewKey ''id'' (VInt 1)), Some (NewKey ''id'' (VInt 2))]"

definition exampleRecord :: Record where
  "exampleRecord = NewRecord ''text'' [(''title'', VString ''a'')]"

definition exampleRecords :: "Record list" where
  "exampleRecords = [exampleRecord, exampleRecord]"


definition exampleRequest :: Request where
  "exampleRequest =
     Request (Tracking TrackingNone [] 0 [] []) NilFilter (IndexQuery ''shoes'' [] [] [] [])
       (FeatureQuery []) 0 10 [] [] [] []"

text \<open>A library instance for evaluating examples; no result below depends on it.\<close>

definition exampleLib :: lib where
  "exampleLib = \<lparr> fmtFloat32 = (\<lambda>_. ''f32''), fmtFloat64 = (\<lambda>_. ''f64''),
                  grpcErrorText = (\<lambda>c f. ''rpc error: '' @ f) \<rparr>"

section \<open>Properties of value marshalling\<close>

lemma FormatInt_10: "FormatInt 10 = ''10''"
  by (simp add: FormatInt_def FormatUint.simps digit_def)

text \<open>
  C4. Every supported value shape encodes, and decoding the encoded value gives its
  string-typed form: a scalar gives the string \<^verbatim>\<open>%v\<close> prints for it, a \<^verbatim>\<open>time.Time\<close> the
  decimal text of its Unix seconds, a list the list of its elements' texts in the same
  order. Every other shape (nil included) fails to encode with the error
  \<^verbatim>\<open>unsupported value: <type>\<close>.
\<close>

theorem value_roundtrip:
  "roundtrip L (VString s) = Ok (VString s)
   \<and> roundtrip L (VBool b) = Ok (VString (if b then ''true'' else ''false''))
   \<and> roundtrip L (VInt i) = Ok (VString (FormatInt (sint i)))
   \<and> roundtrip L (VInt64 i) = Ok (VString (FormatInt (sint i)))
   \<and> roundtrip L (VInt32 i32) = Ok (VString (FormatInt (sint i32)))
   \<and> roundtrip L (VInt16 i16) = Ok (VString (FormatInt (sint i16)))
   \<and> roundtrip L (VInt8 i8) = Ok (VString (FormatInt (sint i8)))
   \<and> roundtrip L (VUint i) = Ok (VString (FormatUint (unat i)))
   \<and> roundtrip L (VUint64 i) = Ok (VString (FormatUint (unat i)))
   \<and> roundtrip L (VUint32 i32) = Ok (VString (FormatUint (unat i32)))
   \<and> roundtrip L (VUint16 i16) = Ok (VString (FormatUint (unat i16)))
   \<and> roundtrip L (VUint8 i8) = Ok (VString (FormatUint (unat i8)))
   \<and> roundtrip L (VFloat32 f32) = Ok (VString (fmtFloat32 L f32))
   \<and> roundtrip L (VFloat64 f64) = Ok (VString (fmtFloat64 L f64))
   \<and> roundtrip L (VTime t) = Ok (VString (FormatInt (sint (Unix t))))
   \<and> roundtrip L (VStrings vs) = Ok (VStrings vs)
   \<and> roundtrip L (VInts xs) = Ok (VStrings (map (\<lambda>v. FormatInt (sint v)) xs))
   \<and> roundtrip L (VInt64s xs) = Ok (VStrings (map (\<lambda>v. FormatInt (sint v)) xs))
   \<and> pbValueFromInterface L VNil = Err (Errorf ''unsupported value: <nil>'')
   \<and> pbValueFromInterface L (VOther T) = Err (Errorf (''unsupported value: '' @ T))"
  by (simp add: roundtrip_def pbValueFromInterface_def FormatBool_def)

theorem value_roundtrip_witness:
  "roundtrip exampleLib (VInt 10) = Ok (VString ''10'')
   \<and> roundtrip exampleLib (VInts [10, 10]) = Ok (VStrings [''10'', ''10''])
   \<and> pbValueFromInterface exampleLib (VOther ''[]float64'')
       = Err (Errorf ''unsupported value: []float64'')"
  using value_roundtrip [where L = exampleLib and i = 10 and xs = "[10, 10]"
      and T = "''[]float64''"]
  by (simp add: FormatInt_10)

text \<open>
  C10. The record \<^verbatim>\<open>NewRecord(body, values)\<close> maps \<^verbatim>\<open>_body\<close> to \<open>body\<close>, whatever
  \<open>values\<close> held under that name, and maps every other name as \<open>values\<close> does.
\<close>

theorem NewRecord_fields:
  "map_of (NewRecord body values) BodyField = Some (VString body)
   \<and> (\<forall>k. k \<noteq> BodyField \<longrightarrow> map_of (NewRecord body values) k = map_of values k)"
  by (simp add: NewRecord_def update_conv')

theorem NewRecord_fields_witness:
  "map_of (NewRecord ''new'' [(''_body'', VString ''old''), (''title'', VInt 7)]) BodyField
     = Some (VString ''new'')
   \<and> map_of (NewRecord ''new'' [(''_body'', VString ''old''), (''title'', VInt 7)]) ''title''
     = Some (VInt 7)"
  using NewRecord_fields [of "''new''" "[(''_body'', VString ''old''), (''title'', VInt 7)]"]
  by (simp add: BodyField_def)

section \<open>Properties of the aggregate error's text\<close>

lemma MultiError_count_eq:
  "MultiError_count msgOf me n msg =
     (n + length (List.map_filter id me),
      if n = 0 then (case List.map_filter id me of [] \<Rightarrow> msg | e # _ \<Rightarrow> msgOf e) else msg)"
  by (induction msgOf me n msg rule: MultiError_count.induct) (auto simp: map_filter_simps)

text \<open>
  What \<^verbatim>\<open>MultiError.Error\<close> returns, by the list of the non-nil entries: with three or
  more of them the number printed is their count, not their count less one.
\<close>

lemma MultiError_Error_cases:
  "MultiError_Error msgOf me =
     (case List.map_filter id me of
        [] \<Rightarrow> ''(0 errors)''
      | [e] \<Rightarrow> msgOf e
      | [e, _] \<Rightarrow> msgOf e @ '' (and 1 other error)''
      | e # es \<Rightarrow> msgOf e @ '' (and '' @ FormatInt (int (length (e # es))) @ '' other errors)'')"
  by (simp add: MultiError_Error_def MultiError_count_eq split: list.splits)

text \<open>
  C8. The claim asks for \<^verbatim>\<open>(and 2 other errors)\<close> after the first message of a MultiError
  with three non-nil entries. The code prints the count itself.
\<close>

theorem MultiError_Error_three:
  "MultiError_Error (Error exampleLib)
     [Some ErrNoSuchRecord, None, Some (Errorf ''a''), Some (Errorf ''b'')]
   = ''sajari: no such record (and 3 other errors)''"
  by (simp add: MultiError_Error_def FormatInt_def FormatUint.simps digit_def)

section \<open>Properties of filters\<close>

lemma TrimRight_suffix:
  "set (drop (length (TrimRight s cutset)) s) \<subseteq> set cutset"
proof -
  have "s = TrimRight s cutset @ rev (takeWhile (\<lambda>c. c \<in> set cutset) (rev s))"
    unfolding TrimRight_def
    by (metis rev_append rev_rev_ident takeWhile_dropWhile_id)
  then have "drop (length (TrimRight s cutset)) s = rev (takeWhile (\<lambda>c. c \<in> set cutset) (rev s))"
    by (metis append_eq_conv_conj)
  then show ?thesis
    by (auto dest: set_takeWhileD)
qed



lemma each_Ok_iff:
  "each f xs = Ok ys \<longleftrightarrow> list_all2 (\<lambda>x y. f x = Ok y) xs ys"
proof (induction xs arbitrary: ys)
  case Nil
  then show ?case by auto
next
  case (Cons x xs)
  show ?case
  proof (cases "f x")
    case (Ok y)
    then show ?thesis
      using Cons.IH by (cases "each f xs") (auto simp: list_all2_Cons1)
  qed (auto simp: list_all2_Cons1)
qed







section \<open>Properties of the batch operations\<close>

lemma recordStatusLoop_eq:
  "recordStatusLoop ss out noErrors =
     (out @ map statusError ss, noErrors \<and> list_all (\<lambda>s. Code s = codes_OK) ss)"
  by (induction ss out noErrors rule: recordStatusLoop.induct) (auto simp: statusError_def)

lemma multiError_eq:
  "multiErrorFromRecordStatusProto status =
     (if list_all (\<lambda>s. Code s = codes_OK) status then None
      else Some (MultiError (map statusError status)))"
  by (simp add: multiErrorFromRecordStatusProto_def recordStatusLoop_eq)

lemma multiError_all_OK:
  "(\<forall>j < length status. Code (status ! j) = codes_OK) \<Longrightarrow>
   multiErrorFromRecordStatusProto status = None"
  by (simp add: multiError_eq list_all_length)

lemma codes_distinct: "codes_NotFound \<noteq> codes_OK"
  by (simp add: codes_NotFound_def codes_OK_def)

lemma multiError_one_NotFound:
  assumes "i < length status" "Code (status ! i) = codes_NotFound"
    "\<forall>j < length status. j \<noteq> i \<longrightarrow> Code (status ! j) = codes_OK"
  shows "multiErrorFromRecordStatusProto status =
           Some (MultiError ((replicate (length status) None)[i := Some ErrNoSuchRecord]))"
proof -
  have "\<not> list_all (\<lambda>s. Code s = codes_OK) status"
    using assms(1,2) codes_distinct by (auto simp: list_all_length)
  moreover have "map statusError status = (replicate (length status) None)[i := Some ErrNoSuchRecord]"
  proof (rule nth_equalityI)
    show "length (map statusError status) = length ((replicate (length status) None)[i := Some ErrNoSuchRecord])"
      by simp
  next
    fix j assume "j < length (map statusError status)"
    then have j: "j < length status" by simp
    show "map statusError status ! j = (replicate (length status) None)[i := Some ErrNoSuchRecord] ! j"
    proof (cases "j = i")
      case True
      with assms(1,2) codes_distinct show ?thesis by (simp add: statusError_def)
    next
      case False
      with assms(3) j show ?thesis by (simp add: statusError_def)
    qed
  qed
  ultimately show ?thesis by (simp add: multiError_eq)
qed

lemma multiError_nonempty:
  "multiErrorFromRecordStatusProto status \<noteq> Some (MultiError [])"
  by (auto simp: multiError_eq)

lemma each_length: "each f xs = Ok ys \<Longrightarrow> length ys = length xs"
  by (simp add: each_Ok_iff list_all2_lengthD)

lemma existsLoop_eq:
  "existsLoop ss out errs noErrors =
     (out @ map (\<lambda>s. Code s = codes_OK)
              (filter (\<lambda>s. Code s = codes_OK \<or> Code s = codes_NotFound) ss),
      errs @ map (\<lambda>s. if Code s = codes_OK \<or> Code s = codes_NotFound then None
                        else Some (GrpcErrorf (Code s) (Message s))) ss,
      noErrors \<and> list_all (\<lambda>s. Code s = codes_OK \<or> Code s = codes_NotFound) ss)"
  by (induction ss out errs noErrors rule: existsLoop.induct) (auto simp: codes_distinct)

lemma FormatInt_digits: "FormatInt 1 = ''1''" "FormatInt 2 = ''2''"
  by (simp_all add: FormatInt_def FormatUint.simps digit_def)

lemma exampleKeys_proto:
  "keys_proto L exampleKeys
     = Ok [PbKey ''id'' (Some (Value_Single ''1'')), PbKey ''id'' (Some (Value_Single ''2''))]"
  by (simp add: exampleKeys_def keys_proto_def Key_proto_def pbSingleValue_def FormatInt_digits)

lemma exampleKeys_length: "length exampleKeys = 2"
  by (simp add: exampleKeys_def)


lemma exampleRecords_proto:
  "records_proto L exampleRecords
     = Ok [[(''title'', Value_Single ''a''), (''_body'', Value_Single ''text'')],
           [(''title'', Value_Single ''a''), (''_body'', Value_Single ''text'')]]"
  by (simp add: exampleRecords_def records_proto_def Record_proto_def protoValues_proto_def
      exampleRecord_def NewRecord_def BodyField_def pbValueFromInterface_def)

lemma exampleRecords_length: "length exampleRecords = 2"
  by (simp add: exampleRecords_def)

lemma examplePbKeys_keys:
  "pbKeys_keys [PbKey ''_id'' (Some (Value_Single ''7'')), PbKey [] None]
     = Ok [Some (NewKey ''_id'' (VString ''7'')), None]"
  by (simp add: pbKeys_keys_def keyFromProto_def)

lemma two_statuses:
  "(\<forall>j<2. j \<noteq> 1 \<longrightarrow> Code ([Status codes_OK [], Status codes_NotFound ''missing''] ! j) = codes_OK)"
  "(\<forall>j<2. Code ([Status codes_OK [], Status codes_OK []] ! j) = codes_OK)"
  by (simp_all add: less_Suc_eq numeral_2_eq_2)


lemma exampleRequest_proto_eq:
  "Request_proto exampleLib exampleRequest
     = Ok (PbSearchRequest (SearchRequest_Tracking Tracking_NONE [] 0 [] [])
            (EngineSearchRequest 0 10 []
               (SearchRequest_IndexQuery [PbBody ''shoes'' float64_one] [] [] [])
               (SearchRequest_FeatureQuery []) None [] [] []))"
  by (simp add: Request_proto_def exampleRequest_def IndexQuery_proto_def FeatureQuery_proto_def
      fieldBoosts_proto_def instanceBoosts_proto_def featureFieldBoosts_proto_def sorts_proto_def
      aggregates_proto_def Tracking_proto_def TrackingType_proto_def Body_proto_def terms_proto_def)

text \<open>
  C1 (as amended). \<^verbatim>\<open>GetMulti\<close> over N keys and \<^verbatim>\<open>AddMulti\<close> over N records: when the
  request serializes, the service answers with N results that decode and N statuses, one
  status is \<^verbatim>\<open>NotFound\<close> and every other is \<^verbatim>\<open>OK\<close>, the call returns the N decoded
  results together with a MultiError of length N whose only non-nil entry is
  \<^verbatim>\<open>ErrNoSuchRecord\<close>, at the index of that status. When every status is \<^verbatim>\<open>OK\<close> it returns
  the N results and a nil error.
\<close>

theorem batch_one_NotFound:
  "(keys_proto L ks = Ok pbks \<and> store_Get c pbks = Inr (GetResponse recs status)
      \<and> pbRecords_records recs = Ok docs
      \<and> length recs = length ks \<and> length status = length ks \<longrightarrow>
      (i < length ks \<and> Code (status ! i) = codes_NotFound
         \<and> (\<forall>j < length ks. j \<noteq> i \<longrightarrow> Code (status ! j) = codes_OK) \<longrightarrow>
         fst (GetMulti L c ks)
           = Return docs (Some (MultiError ((replicate (length ks) None)[i := Some ErrNoSuchRecord])))
         \<and> length docs = length ks)
      \<and> ((\<forall>j < length ks. Code (status ! j) = codes_OK) \<longrightarrow>
         fst (GetMulti L c ks) = Return docs None \<and> length docs = length ks))
   \<and> (records_proto L rs = Ok pbrs
      \<and> store_Add c (AddRequest pbrs (if length ts = 0 then ts @ DefaultAddTransforms else ts))
          = Inr (AddResponse pbkeys status')
      \<and> pbKeys_keys pbkeys = Ok keys
      \<and> length pbkeys = length rs \<and> length status' = length rs \<longrightarrow>
      (i' < length rs \<and> Code (status' ! i') = codes_NotFound
         \<and> (\<forall>j < length rs. j \<noteq> i' \<longrightarrow> Code (status' ! j) = codes_OK) \<longrightarrow>
         fst (AddMulti L c rs ts)
           = Return keys (Some (MultiError ((replicate (length rs) None)[i' := Some ErrNoSuchRecord])))
         \<and> length keys = length rs)
      \<and> ((\<forall>j < length rs. Code (status' ! j) = codes_OK) \<longrightarrow>
         fst (AddMulti L c rs ts) = Return keys None \<and> length keys = length rs))"
proof -
  have get: "fst (GetMulti L c ks) = Return docs (multiErrorFromRecordStatusProto status)
             \<and> length docs = length ks"
    if "keys_proto L ks = Ok pbks" "store_Get c pbks = Inr (GetResponse recs status)"
       "pbRecords_records recs = Ok docs" "length recs = length ks"
    using that by (auto simp: GetMulti_def pbRecords_records_def dest: each_length)
  have add: "fst (AddMulti L c rs ts) = Return keys (multiErrorFromRecordStatusProto status')
             \<and> length keys = length rs"
    if "records_proto L rs = Ok pbrs"
       "store_Add c (AddRequest pbrs (if length ts = 0 then ts @ DefaultAddTransforms else ts))
          = Inr (AddResponse pbkeys status')"
       "pbKeys_keys pbkeys = Ok keys" "length pbkeys = length rs"
    using that by (auto simp: AddMulti_def Let_def pbKeys_keys_def dest: each_length)
  show ?thesis
    using get add multiError_one_NotFound [of i status] multiError_one_NotFound [of i' status']
      multiError_all_OK [of status] multiError_all_OK [of status']
    by (intro conjI impI) (elim conjE, simp)+
qed

theorem batch_one_NotFound_witness:
  "fst (GetMulti exampleLib
          (exampleService [] [[(''title'', Value_Single ''a'')], []] []
             [Status codes_OK [], Status codes_NotFound ''missing''])
          exampleKeys)
     = Return [[(''title'', VString ''a'')], []] (Some (MultiError [None, Some ErrNoSuchRecord]))
   \<and> fst (GetMulti exampleLib
          (exampleService [] [[(''title'', Value_Single ''a'')], []] []
             [Status codes_OK [], Status codes_OK []])
          exampleKeys)
     = Return [[(''title'', VString ''a'')], []] None
   \<and> fst (AddMulti exampleLib
          (exampleService [PbKey ''_id'' (Some (Value_Single ''7'')), PbKey [] None] [] []
             [Status codes_OK [], Status codes_NotFound ''missing''])
          exampleRecords [])
     = Return [Some (NewKey ''_id'' (VString ''7'')), None] (Some (MultiError [None, Some ErrNoSuchRecord]))
   \<and> fst (AddMulti exampleLib
          (exampleService [PbKey ''_id'' (Some (Value_Single ''7'')), PbKey [] None] [] []
             [Status codes_OK [], Status codes_OK []])
          exampleRecords [])
     = Return [Some (NewKey ''_id'' (VString ''7'')), None] None"
proof -
  let ?recs = "[[(''title'', Value_Single ''a'')], []]"
  let ?docs = "[[(''title'', VString ''a'')], []]"
  let ?pbks = "[PbKey ''id'' (Some (Value_Single ''1'')), PbKey ''id'' (Some (Value_Single ''2''))]"
  let ?nf = "[Status codes_OK [], Status codes_NotFound ''missing'']"
  let ?ok = "[Status codes_OK [], Status codes_OK []]"
  let ?keys = "[PbKey ''_id'' (Some (Value_Single ''7'')), PbKey [] None]"
  let ?pbrs = "[[(''title'', Value_Single ''a''), (''_body'', Value_Single ''text'')],
           [(''title'', Value_Single ''a''), (''_body'', Value_Single ''text'')]]"
  have dec: "pbRecords_records ?recs = Ok ?docs"
    by (simp add: pbRecords_records_def recordFromProto_def)
  have a: "fst (GetMulti exampleLib (exampleService [] ?recs [] ?nf) exampleKeys)
     = Return ?docs (Some (MultiError ((replicate 2 None)[1 := Some ErrNoSuchRecord])))"
    using batch_one_NotFound [where L = exampleLib and ks = exampleKeys and pbks = ?pbks
        and c = "exampleService [] ?recs [] ?nf" and recs = ?recs and status = ?nf
        and docs = ?docs and i = 1, THEN conjunct1] dec two_statuses
    by (simp add: exampleKeys_proto exampleKeys_length exampleService_def)
  have b: "fst (GetMulti exampleLib (exampleService [] ?recs [] ?ok) exampleKeys) = Return ?docs None"
    using batch_one_NotFound [where L = exampleLib and ks = exampleKeys and pbks = ?pbks
        and c = "exampleService [] ?recs [] ?ok" and recs = ?recs and status = ?ok
        and docs = ?docs, THEN conjunct1] dec two_statuses
    by (simp add: exampleKeys_proto exampleKeys_length exampleService_def)
  have c: "fst (AddMulti exampleLib (exampleService ?keys [] [] ?nf) exampleRecords [])
     = Return [Some (NewKey ''_id'' (VString ''7'')), None]
         (Some (MultiError ((replicate 2 None)[1 := Some ErrNoSuchRecord])))"
    using batch_one_NotFound [where L = exampleLib and rs = exampleRecords and pbrs = ?pbrs
        and ts = "[]" and c = "exampleService ?keys [] [] ?nf" and pbkeys = ?keys and status' = ?nf
        and keys = "[Some (NewKey ''_id'' (VString ''7'')), None]" and i' = 1, THEN conjunct2]
      examplePbKeys_keys two_statuses
    by (simp add: exampleRecords_proto exampleRecords_length exampleService_def)
  have d: "fst (AddMulti exampleLib (exampleService ?keys [] [] ?ok) exampleRecords [])
     = Return [Some (NewKey ''_id'' (VString ''7'')), None] None"
    using batch_one_NotFound [where L = exampleLib and rs = exampleRecords and pbrs = ?pbrs
        and ts = "[]" and c = "exampleService ?keys [] [] ?ok" and pbkeys = ?keys and status' = ?ok
        and keys = "[Some (NewKey ''_id'' (VString ''7'')), None]", THEN conjunct2]
      examplePbKeys_keys two_statuses
    by (simp add: exampleRecords_proto exampleRecords_length exampleService_def)
  from a b c d show ?thesis by (simp add: numeral_2_eq_2)
qed

text \<open>
  C1 as stated speaks of every batch operation. \<^verbatim>\<open>ExistsMulti\<close> over two keys with the
  statuses \<^verbatim>\<open>OK\<close> and \<^verbatim>\<open>NotFound\<close> returns \<^verbatim>\<open>[true, false]\<close> and a nil error: a key
  that is not found is an answer for it, not an error.
\<close>

theorem ExistsMulti_NotFound_is_false:
  "fst (ExistsMulti exampleLib
          (exampleService [] [] [] [Status codes_OK [], Status codes_NotFound ''missing''])
          exampleKeys)
     = Return [True, False] None
   \<and> fst (ExistsMulti exampleLib
          (exampleService [] [] [] [Status codes_OK [], Status codes_NotFound ''missing''])
          exampleKeys)
     \<noteq> Return [True, False] (Some (MultiError [None, Some ErrNoSuchRecord]))"
  by (simp add: ExistsMulti_def exampleKeys_proto exampleService_def codes_OK_def codes_NotFound_def)

text \<open>
  C2 (as amended). When the remote call succeeds and its results decode, \<^verbatim>\<open>GetMulti\<close> and
  \<^verbatim>\<open>AddMulti\<close> return the decoded result list whatever the statuses are, beside the
  aggregate error, which is nil when every status is \<^verbatim>\<open>OK\<close> and otherwise has one entry
  per status. \<^verbatim>\<open>ExistsMulti\<close> returns its list of answers only when every status is
  \<^verbatim>\<open>OK\<close> or \<^verbatim>\<open>NotFound\<close>; otherwise it returns a nil list beside the MultiError.
\<close>

theorem batch_partial_results:
  "(keys_proto L ks = Ok pbks \<and> store_Get c pbks = Inr (GetResponse recs status)
      \<and> pbRecords_records recs = Ok docs \<longrightarrow>
      fst (GetMulti L c ks) = Return docs (multiErrorFromRecordStatusProto status))
   \<and> (records_proto L rs = Ok pbrs
      \<and> store_Add c (AddRequest pbrs (if length ts = 0 then ts @ DefaultAddTransforms else ts))
          = Inr (AddResponse pbkeys status)
      \<and> pbKeys_keys pbkeys = Ok keys \<longrightarrow>
      fst (AddMulti L c rs ts) = Return keys (multiErrorFromRecordStatusProto status))
   \<and> multiErrorFromRecordStatusProto status
       = (if list_all (\<lambda>s. Code s = codes_OK) status then None
          else Some (MultiError (map (\<lambda>s. if Code s = codes_OK then None
                                         else if Code s = codes_NotFound then Some ErrNoSuchRecord
                                         else Some (GrpcErrorf (Code s) (Message s))) status)))
   \<and> (keys_proto L ks = Ok pbks \<and> store_Exists c pbks = Inr (StatusResponse status) \<longrightarrow>
      fst (ExistsMulti L c ks)
        = (if list_all (\<lambda>s. Code s = codes_OK \<or> Code s = codes_NotFound) status
           then Return (map (\<lambda>s. Code s = codes_OK) status) None
           else Return [] (Some (MultiError
                  (map (\<lambda>s. if Code s = codes_OK \<or> Code s = codes_NotFound then None
                             else Some (GrpcErrorf (Code s) (Message s))) status)))))"
proof -
  have ex: "list_all (\<lambda>s. Code s = codes_OK \<or> Code s = codes_NotFound) status \<Longrightarrow>
        filter (\<lambda>s. Code s = codes_OK \<or> Code s = codes_NotFound) status = status"
    by (simp add: list_all_iff)
  have m: "map statusError status = map (\<lambda>s. if Code s = codes_OK then None
                                         else if Code s = codes_NotFound then Some ErrNoSuchRecord
                                         else Some (GrpcErrorf (Code s) (Message s))) status"
    by (simp add: statusError_def)
  show ?thesis
    apply (intro conjI impI)
       apply (simp add: GetMulti_def)
      apply (simp add: AddMulti_def Let_def)
     apply (simp add: multiError_eq m)
    apply (simp add: ExistsMulti_def existsLoop_eq ex)
    done
qed

theorem batch_partial_results_witness:
  "fst (GetMulti exampleLib
          (exampleService [] [[(''title'', Value_Single ''a'')], []] []
             [Status codes_OK [], Status 13 ''boom''])
          exampleKeys)
     = Return [[(''title'', VString ''a'')], []] (Some (MultiError [None, Some (GrpcErrorf 13 ''boom'')]))
   \<and> fst (AddMulti exampleLib
          (exampleService [PbKey ''_id'' (Some (Value_Single ''7'')), PbKey [] None] [] []
             [Status codes_OK [], Status 13 ''boom''])
          exampleRecords [])
     = Return [Some (NewKey ''_id'' (VString ''7'')), None]
         (Some (MultiError [None, Some (GrpcErrorf 13 ''boom'')]))
   \<and> fst (ExistsMulti exampleLib
          (exampleService [] [] [] [Status codes_OK [], Status codes_NotFound ''missing''])
          exampleKeys)
     = Return [True, False] None"
proof -
  let ?recs = "[[(''title'', Value_Single ''a'')], []]"
  let ?docs = "[[(''title'', VString ''a'')], []]"
  let ?pbks = "[PbKey ''id'' (Some (Value_Single ''1'')), PbKey ''id'' (Some (Value_Single ''2''))]"
  let ?status = "[Status codes_OK [], Status 13 ''boom'']"
  let ?nf = "[Status codes_OK [], Status codes_NotFound ''missing'']"
  let ?keys = "[PbKey ''_id'' (Some (Value_Single ''7'')), PbKey [] None]"
  let ?pbrs = "[[(''title'', Value_Single ''a''), (''_body'', Value_Single ''text'')],
           [(''title'', Value_Single ''a''), (''_body'', Value_Single ''text'')]]"
  have dec: "pbRecords_records ?recs = Ok ?docs"
    by (simp add: pbRecords_records_def recordFromProto_def)
  have me: "multiErrorFromRecordStatusProto ?status = Some (MultiError [None, Some (GrpcErrorf 13 ''boom'')])"
    using batch_partial_results [where status = ?status, THEN conjunct2, THEN conjunct2, THEN conjunct1]
    by (simp add: codes_OK_def codes_NotFound_def)
  have a: "fst (GetMulti exampleLib (exampleService [] ?recs [] ?status) exampleKeys)
      = Return ?docs (multiErrorFromRecordStatusProto ?status)"
    using batch_partial_results [where L = exampleLib and ks = exampleKeys and pbks = ?pbks
        and c = "exampleService [] ?recs [] ?status" and recs = ?recs and status = ?status
        and docs = ?docs, THEN conjunct1] dec
    by (simp add: exampleKeys_proto exampleService_def)
  have b: "fst (AddMulti exampleLib (exampleService ?keys [] [] ?status) exampleRecords [])
      = Return [Some (NewKey ''_id'' (VString ''7'')), None] (multiErrorFromRecordStatusProto ?status)"
    using batch_partial_results [where L = exampleLib and rs = exampleRecords and pbrs = ?pbrs
        and ts = "[]" and c = "exampleService ?keys [] [] ?status" and pbkeys = ?keys
        and status = ?status and keys = "[Some (NewKey ''_id'' (VString ''7'')), None]",
        THEN conjunct2, THEN conjunct1] examplePbKeys_keys
    by (simp add: exampleRecords_proto exampleService_def)
  have c: "fst (ExistsMulti exampleLib (exampleService [] [] [] ?nf) exampleKeys) = Return [True, False] None"
    using batch_partial_results [where L = exampleLib and ks = exampleKeys and pbks = ?pbks
        and c = "exampleService [] [] [] ?nf" and status = ?nf,
        THEN conjunct2, THEN conjunct2, THEN conjunct2]
    by (simp add: exampleKeys_proto exampleService_def codes_OK_def codes_NotFound_def)
  from a b c me show ?thesis by simp
qed

text \<open>
  C2 as stated includes \<^verbatim>\<open>ExistsMulti\<close>. With the statuses \<^verbatim>\<open>OK\<close> and \<^verbatim>\<open>Internal\<close> for
  two keys it returns a nil list: the answer for the first key is not returned.
\<close>

theorem ExistsMulti_discards_results:
  "fst (ExistsMulti exampleLib
          (exampleService [] [] [] [Status codes_OK [], Status 13 ''boom''])
          exampleKeys)
     = Return [] (Some (MultiError [None, Some (GrpcErrorf 13 ''boom'')]))"
  by (simp add: ExistsMulti_def exampleKeys_proto exampleService_def codes_OK_def codes_NotFound_def)



text \<open>
  Where the Multi counterpart returns a nil error and no element at all (the service
  answered with none), the single operation's read of index 0 panics.
\<close>

lemma single_panics_without_first:
  "fst (AddMulti L c [r] ts) = Return [] None \<Longrightarrow> fst (Add L c r ts) = Panics"
  "fst (GetMulti L c [k]) = Return [] None \<Longrightarrow> fst (Get L c k) = Panics"
  "fst (ExistsMulti L c [k]) = Return [] None \<Longrightarrow> fst (Exists L c k) = Panics"
    apply (cases "AddMulti L c [r] ts"; simp add: Add_def)
   apply (cases "GetMulti L c [k]"; simp add: Get_def)
  apply (cases "ExistsMulti L c [k]"; simp add: Exists_def)
  done

lemma AnalyseMulti_call:
  "Request_proto L r = Ok pr \<Longrightarrow> keys_proto L ks = Ok pbks \<Longrightarrow>
   snd (AnalyseMulti L c ks r) = [CallAnalyse (AnalyseRequest (psr_SearchRequest pr) pbks)]"
  by (simp add: AnalyseMulti_def Let_def split: sum.splits)

text \<open>
  C9. When the number of keys differs from the number of counts or of scores,
  \<^verbatim>\<open>LearnMulti\<close> returns the error \<^verbatim>\<open>number of keys, counts and scores do not match\<close> and
  makes no remote call. No other length stops it locally: when the three lengths agree
  and the request and the keys serialize, the analysis call is made.
\<close>

theorem LearnMulti_length_check:
  "(length ks \<noteq> length counts \<or> length ks \<noteq> length scores \<longrightarrow>
      LearnMulti L c ks r counts scores
        = (Return () (Some (Errorf ''number of keys, counts and scores do not match'')), []))
   \<and> (length ks = length counts \<and> length ks = length scores
        \<and> Request_proto L r = Ok pr \<and> keys_proto L ks = Ok pbks \<longrightarrow>
      (\<exists>rest. snd (LearnMulti L c ks r counts scores)
                 = CallAnalyse (AnalyseRequest (psr_SearchRequest pr) pbks) # rest))"
proof (intro conjI impI)
  assume "length ks \<noteq> length counts \<or> length ks \<noteq> length scores"
  then show "LearnMulti L c ks r counts scores
        = (Return () (Some (Errorf ''number of keys, counts and scores do not match'')), [])"
    by (auto simp: LearnMulti_def)
next
  assume a: "length ks = length counts \<and> length ks = length scores
        \<and> Request_proto L r = Ok pr \<and> keys_proto L ks = Ok pbks"
  then have calls: "snd (AnalyseMulti L c ks r) = [CallAnalyse (AnalyseRequest (psr_SearchRequest pr) pbks)]"
    by (simp add: AnalyseMulti_call)
  obtain res cs where am: "AnalyseMulti L c ks r = (res, cs)"
    by (cases "AnalyseMulti L c ks r")
  with calls have cs: "cs = [CallAnalyse (AnalyseRequest (psr_SearchRequest pr) pbks)]"
    by simp
  show "\<exists>rest. snd (LearnMulti L c ks r counts scores)
                 = CallAnalyse (AnalyseRequest (psr_SearchRequest pr) pbks) # rest"
    using a am cs
    by (auto simp: LearnMulti_def split: ret.splits option.splits res.splits sum.splits)
qed

theorem LearnMulti_length_check_witness:
  "LearnMulti exampleLib (exampleService [] [] [[''shoe''], []] [Status codes_OK [], Status codes_OK []])
     exampleKeys exampleRequest [1] [Float32 0, Float32 0]
     = (Return () (Some (Errorf ''number of keys, counts and scores do not match'')), [])
   \<and> (\<exists>rest. snd (LearnMulti exampleLib
        (exampleService [] [] [[''shoe''], []] [Status codes_OK [], Status codes_OK []])
        exampleKeys exampleRequest [1, 1] [Float32 0, Float32 0])
      = CallAnalyse (AnalyseRequest
          (EngineSearchRequest 0 10 []
             (SearchRequest_IndexQuery [PbBody ''shoes'' float64_one] [] [] [])
             (SearchRequest_FeatureQuery []) None [] [] [])
          [PbKey ''id'' (Some (Value_Single ''1'')), PbKey ''id'' (Some (Value_Single ''2''))])
        # rest)"
proof -
  let ?c = "exampleService [] [] [[''shoe''], []] [Status codes_OK [], Status codes_OK []]"
  have a: "LearnMulti exampleLib ?c exampleKeys exampleRequest [1] [Float32 0, Float32 0]
     = (Return () (Some (Errorf ''number of keys, counts and scores do not match'')), [])"
    using LearnMulti_length_check [where L = exampleLib and c = ?c and ks = exampleKeys
        and r = exampleRequest and counts = "[1]" and scores = "[Float32 0, Float32 0]", THEN conjunct1]
    by (simp add: exampleKeys_length)
  have b: "\<exists>rest. snd (LearnMulti exampleLib ?c exampleKeys exampleRequest [1, 1] [Float32 0, Float32 0])
      = CallAnalyse (AnalyseRequest
          (EngineSearchRequest 0 10 []
             (SearchRequest_IndexQuery [PbBody ''shoes'' float64_one] [] [] [])
             (SearchRequest_FeatureQuery []) None [] [] [])
          [PbKey ''id'' (Some (Value_Single ''1'')), PbKey ''id'' (Some (Value_Single ''2''))])
        # rest"
    using LearnMulti_length_check [where L = exampleLib and c = ?c and ks = exampleKeys
        and r = exampleRequest and counts = "[1, 1]" and scores = "[Float32 0, Float32 0]",
        THEN conjunct2, rule_format, OF conjI [OF _ conjI [OF _ conjI [OF exampleRequest_proto_eq exampleKeys_proto]]]]
    by (simp add: exampleKeys_length)
  from a b show ?thesis by blast
qed

text \<open>
  The length of the analysis result is not compared with the number of keys: when the
  analysis returns fewer term lists than there are keys, the read of \<^verbatim>\<open>ars[i]\<close> in the
  loop panics, after the analysis call and before any increment call.
\<close>

lemma keysScoresLoop_short:
  "i \<le> length ars \<Longrightarrow> length ars < i + length pbks \<Longrightarrow>
   keysScoresLoop i pbks ars counts scores = Panic"
proof (induction pbks arbitrary: i)
  case Nil
  then show ?case by simp
next
  case (Cons k pbks)
  show ?case
  proof (cases "i < length ars")
    case False
    then show ?thesis by (simp add: index_def)
  next
    case True
    with Cons.prems have "i + 1 \<le> length ars" "length ars < (i + 1) + length pbks"
      by simp_all
    then have "keysScoresLoop (i + 1) pbks ars counts scores = Panic"
      by (rule Cons.IH)
    then show ?thesis
      by (simp add: index_def)
  qed
qed

lemma LearnMulti_short_analysis:
  assumes "length ks = length counts" "length ks = length scores"
    and "AnalyseMulti L c ks r = (Return ars None, calls)"
    and "keys_proto L ks = Ok pbks" "length ars < length ks"
  shows "LearnMulti L c ks r counts scores = (Panics, calls)"
proof -
  from assms(4) have "length pbks = length ks"
    by (simp add: keys_proto_def each_length)
  with assms(5) have "keysScoresLoop 0 pbks ars counts scores = Panic"
    by (simp add: keysScoresLoop_short)
  with assms(1-4) show ?thesis
    by (simp add: LearnMulti_def)
qed

section \<open>Properties of serialization\<close>























end
